theory Spec2Isabelle
  imports Main "HOL-Library.Sublist"
begin

section \<open>Strings\<close>

text \<open>
  Go strings are byte sequences; they are modelled as \<^typ>\<open>string\<close> (a list of
  8-bit characters). The three predicates of package \<^verbatim>\<open>strings\<close> that
  \<^verbatim>\<open>main.go\<close> calls are the library's prefix, suffix and contiguous-sublist
  relations with the arguments in Go's order.
\<close>

definition HasPrefix :: "string \<Rightarrow> string \<Rightarrow> bool" where
  "HasPrefix s p = prefix p s"

definition HasSuffix :: "string \<Rightarrow> string \<Rightarrow> bool" where
  "HasSuffix s p = suffix p s"

definition Contains :: "string \<Rightarrow> string \<Rightarrow> bool" where
  "Contains s sub = sublist sub s"

section \<open>Instants\<close>

text \<open>
  A \<^verbatim>\<open>time.Time\<close> without monotonic reading (every instant here comes from
  \<^verbatim>\<open>time.Parse\<close> or from decoded object metadata) is compared by
  \<^verbatim>\<open>Before\<close>, \<^verbatim>\<open>After\<close> and \<^verbatim>\<open>IsZero\<close> through its instant
  only. An instant is the number of nanoseconds since the zero value of
  \<^verbatim>\<open>time.Time\<close>, January 1 of year 1, 00:00:00 UTC; instants before it are negative.
\<close>

type_synonym Time = int

definition IsZero :: "Time \<Rightarrow> bool" where
  "IsZero t = (t = 0)"

definition tBefore :: "Time \<Rightarrow> Time \<Rightarrow> bool" where
  "tBefore t u = (t < u)"

definition tAfter :: "Time \<Rightarrow> Time \<Rightarrow> bool" where
  "tAfter t u = (t > u)"

section \<open>The filter\<close>

record ResourceFilter =
  BeforeT :: Time
  After :: Time
  Start :: Time
  End :: Time
  OutputDir :: string
  ResourceData :: bool

text \<open>
  The field \<^verbatim>\<open>Before\<close> is written \<open>BeforeT\<close> (the plain name is reserved in the
  target language of the code generator). \<open>zeroFilter\<close> is the zero value of the struct,
  as \<^verbatim>\<open>var filter ResourceFilter\<close> declares it.
\<close>

definition zeroFilter :: ResourceFilter where
  "zeroFilter = \<lparr>BeforeT = 0, After = 0, Start = 0, End = 0, OutputDir = [], ResourceData = False\<rparr>"

datatype FlagError =
  BothBeforeAndAfter
  | StartEndNotTogether
  | BeforeAfterWithStartEnd
  | InvalidBefore
  | InvalidAfter
  | InvalidStart
  | InvalidEnd
  | ResourceDataWithOutput

text \<open>
  \<^verbatim>\<open>validateAndBuildFilter\<close>. The standard library's
  \<^verbatim>\<open>time.Parse(time.RFC3339, s)\<close> is the parameter \<open>parse\<close>: \<open>None\<close> is its
  error, \<open>Some t\<close> the instant it returns. The three option checks come first, then
  the fields are parsed in the order before, after, start, end, then the output check.
\<close>

definition validateAndBuildFilter ::
  "(string \<Rightarrow> Time option) \<Rightarrow> string \<Rightarrow> string \<Rightarrow> string \<Rightarrow> string \<Rightarrow> string \<Rightarrow> bool
    \<Rightarrow> FlagError + ResourceFilter" where
  "validateAndBuildFilter parse beforeStr afterStr startStr endStr output resourceData =
    (if beforeStr \<noteq> [] \<and> afterStr \<noteq> [] then Inl BothBeforeAndAfter
     else if (startStr \<noteq> [] \<and> endStr = []) \<or> (startStr = [] \<and> endStr \<noteq> []) then
       Inl StartEndNotTogether
     else if (beforeStr \<noteq> [] \<or> afterStr \<noteq> []) \<and> (startStr \<noteq> [] \<or> endStr \<noteq> []) then
       Inl BeforeAfterWithStartEnd
     else
       case (if beforeStr \<noteq> [] then
               (case parse beforeStr of
                  None \<Rightarrow> Inl InvalidBefore
                | Some t \<Rightarrow> Inr (zeroFilter\<lparr>BeforeT := t\<rparr>))
             else Inr zeroFilter) of
         Inl e \<Rightarrow> Inl e
       | Inr f1 \<Rightarrow>
       case (if afterStr \<noteq> [] then
               (case parse afterStr of
                  None \<Rightarrow> Inl InvalidAfter
                | Some t \<Rightarrow> Inr (f1\<lparr>After := t\<rparr>))
             else Inr f1) of
         Inl e \<Rightarrow> Inl e
       | Inr f2 \<Rightarrow>
       case (if startStr \<noteq> [] then
               (case parse startStr of
                  None \<Rightarrow> Inl InvalidStart
                | Some s \<Rightarrow>
                    (case parse endStr of
                       None \<Rightarrow> Inl InvalidEnd
                     | Some e \<Rightarrow> Inr (f2\<lparr>Start := s, End := e\<rparr>)))
             else Inr f2) of
         Inl e \<Rightarrow> Inl e
       | Inr f3 \<Rightarrow>
           if resourceData \<and> output \<noteq> [] then Inl ResourceDataWithOutput
           else Inr (f3\<lparr>OutputDir := output, ResourceData := resourceData\<rparr>))"

text \<open>
  The three guards at the head of the loop of \<^verbatim>\<open>filterAndOutput\<close>: each one that
  fires is a \<^verbatim>\<open>continue\<close>. \<open>created\<close> is the object's creation timestamp.
\<close>

definition passesTimeFilter :: "ResourceFilter \<Rightarrow> Time \<Rightarrow> bool" where
  "passesTimeFilter flt created =
    (if \<not> IsZero (BeforeT flt) \<and> \<not> tBefore created (BeforeT flt) then False
     else if \<not> IsZero (After flt) \<and> \<not> tAfter created (After flt) then False
     else if \<not> IsZero (Start flt) \<and>
             (tBefore created (Start flt) \<or> tAfter created (End flt)) then False
     else True)"

section \<open>White space\<close>

text \<open>
  \<^verbatim>\<open>strings.TrimSpace\<close> removes leading and trailing white space as Unicode defines
  it. On the bytes of a Go string these are the six ASCII characters tab, line feed,
  vertical tab, form feed, carriage return and space, and the UTF-8 encodings of U+0085,
  U+00A0, U+1680, U+2000 to U+200A, U+2028, U+2029, U+202F, U+205F and U+3000. A byte that
  starts no such encoding decodes to a rune that is not white space and stops the trimming.
\<close>

definition spaceRunes :: "string list" where
  "spaceRunes =
    [[CHR 0x09], [CHR 0x0A], [CHR 0x0B], [CHR 0x0C], [CHR 0x0D], [CHR 0x20],
     [CHR 0xC2, CHR 0x85], [CHR 0xC2, CHR 0xA0],
     [CHR 0xE1, CHR 0x9A, CHR 0x80],
     [CHR 0xE2, CHR 0x80, CHR 0x80], [CHR 0xE2, CHR 0x80, CHR 0x81],
     [CHR 0xE2, CHR 0x80, CHR 0x82], [CHR 0xE2, CHR 0x80, CHR 0x83],
     [CHR 0xE2, CHR 0x80, CHR 0x84], [CHR 0xE2, CHR 0x80, CHR 0x85],
     [CHR 0xE2, CHR 0x80, CHR 0x86], [CHR 0xE2, CHR 0x80, CHR 0x87],
     [CHR 0xE2, CHR 0x80, CHR 0x88], [CHR 0xE2, CHR 0x80, CHR 0x89],
     [CHR 0xE2, CHR 0x80, CHR 0x8A],
     [CHR 0xE2, CHR 0x80, CHR 0xA8], [CHR 0xE2, CHR 0x80, CHR 0xA9],
     [CHR 0xE2, CHR 0x80, CHR 0xAF],
     [CHR 0xE2, CHR 0x81, CHR 0x9F],
     [CHR 0xE3, CHR 0x80, CHR 0x80]]"

text \<open>The width in bytes of the white-space rune a string starts (ends) with; 0 if none.\<close>

definition leadingSpace :: "string \<Rightarrow> nat" where
  "leadingSpace s = (case find (\<lambda>p. prefix p s) spaceRunes of None \<Rightarrow> 0 | Some p \<Rightarrow> length p)"

definition trailingSpace :: "string \<Rightarrow> nat" where
  "trailingSpace s = (case find (\<lambda>p. suffix p s) spaceRunes of None \<Rightarrow> 0 | Some p \<Rightarrow> length p)"

lemma leadingSpace_le: "leadingSpace s \<le> length s"
  by (auto simp: leadingSpace_def find_Some_iff prefix_def split: option.splits)

lemma trailingSpace_le: "trailingSpace s \<le> length s"
  by (auto simp: trailingSpace_def find_Some_iff suffix_def split: option.splits)

function TrimLeft :: "string \<Rightarrow> string" where
  "TrimLeft s = (if leadingSpace s = 0 then s else TrimLeft (drop (leadingSpace s) s))"
  by pat_completeness auto
termination
proof (relation "measure length")
  fix s :: string
  assume "leadingSpace s \<noteq> 0"
  moreover have "leadingSpace s \<le> length s" by (rule leadingSpace_le)
  ultimately show "(drop (leadingSpace s) s, s) \<in> measure length" by simp
qed simp

function TrimRight :: "string \<Rightarrow> string" where
  "TrimRight s = (if trailingSpace s = 0 then s else TrimRight (take (length s - trailingSpace s) s))"
  by pat_completeness auto
termination
proof (relation "measure length")
  fix s :: string
  assume "trailingSpace s \<noteq> 0"
  moreover have "trailingSpace s \<le> length s" by (rule trailingSpace_le)
  ultimately show "(take (length s - trailingSpace s) s, s) \<in> measure length" by simp
qed simp

declare TrimLeft.simps [simp del] TrimRight.simps [simp del]

text \<open>\<^verbatim>\<open>TrimFunc\<close> trims the left end, then the right end.\<close>

definition TrimSpace :: "string \<Rightarrow> string" where
  "TrimSpace s = TrimRight (TrimLeft s)"

section \<open>Cluster data\<close>

text \<open>
  The fields of \<^verbatim>\<open>metav1.APIResource\<close>, \<^verbatim>\<open>metav1.APIResourceList\<close>,
  \<^verbatim>\<open>schema.GroupVersion\<close> and \<^verbatim>\<open>schema.GroupVersionResource\<close> that the program
  reads or writes.
\<close>

record APIResource =
  Name :: string
  Namespaced :: bool
  Kind :: string

record APIResourceList =
  GroupVersion :: string
  APIResources :: "APIResource list"

record schemaGroupVersion =
  gvGroup :: string
  gvVersion :: string

record GroupVersionResource =
  Group :: string
  Version :: string
  Resource :: string

text \<open>
  An \<^verbatim>\<open>unstructured.Unstructured\<close> object through the accessors the program calls.
  \<open>creationTimestamp\<close> is \<open>None\<close> when the metadata has no creation timestamp; the
  accessor \<^verbatim>\<open>GetCreationTimestamp\<close> then returns the zero value of \<^verbatim>\<open>metav1.Time\<close>.
\<close>

record Unstructured =
  GetKind :: string
  GetAPIVersion :: string
  GetNamespace :: string
  GetName :: string
  creationTimestamp :: "Time option"

definition GetCreationTimestamp :: "Unstructured \<Rightarrow> Time" where
  "GetCreationTimestamp item = (case creationTimestamp item of None \<Rightarrow> 0 | Some t \<Rightarrow> t)"

text \<open>\<^verbatim>\<open>metav1.NamespaceAll\<close> is the empty string.\<close>

definition NamespaceAll :: string where
  "NamespaceAll = []"

section \<open>Collaborators and effects\<close>

text \<open>
  What the standard library, the kubeconfig loader, the discovery client, the dynamic
  client and the file system return is the environment of a run. An error return is
  \<open>None\<close> (or \<open>False\<close>).
  \<^item> \<open>ParseTime s\<close>: \<^verbatim>\<open>time.Parse(time.RFC3339, s)\<close>.
  \<^item> \<open>FormatTime t\<close>: \<^verbatim>\<open>t.UTC().Format(time.RFC3339)\<close>.
  \<^item> \<open>KubeconfigLoads\<close>: \<^verbatim>\<open>clientcmd.BuildConfigFromFlags\<close> returned no error.
  \<^item> \<open>ServerPreferredResources\<close>: the discovery snapshot.
  \<^item> \<open>ParseGroupVersion\<close>: \<^verbatim>\<open>schema.ParseGroupVersion\<close>.
  \<^item> \<open>ListObjects gvr ns\<close>: the items of the list call for \<open>gvr\<close>; \<open>ns\<close> is
    \<open>Some n\<close> for \<^verbatim>\<open>.Namespace(n).List\<close> and \<open>None\<close> for the unscoped \<^verbatim>\<open>.List\<close>.
  \<^item> \<open>MarshalJSON item\<close>: the serialized object.
  \<^item> \<open>Join elems\<close>: \<^verbatim>\<open>filepath.Join\<close>.
  \<^item> \<open>CreateFile path\<close>: \<^verbatim>\<open>os.Create\<close> returned no error.
  \<^item> \<open>CsvWriteOk record\<close>: \<^verbatim>\<open>csv_writer.Write\<close> returned no error.
  \<^item> \<open>UserHomeDir\<close>: \<^verbatim>\<open>os.UserHomeDir\<close>.
  \<^item> \<open>OpenAndScan path\<close>: \<open>None\<close> when \<^verbatim>\<open>os.Open\<close> fails; otherwise the tokens
    that \<^verbatim>\<open>scanner.Scan\<close> delivers, one per line, and whether \<^verbatim>\<open>scanner.Err\<close> is
    an error at the end.
\<close>

record Env =
  ParseTime :: "string \<Rightarrow> Time option"
  FormatTime :: "Time \<Rightarrow> string"
  KubeconfigLoads :: bool
  ServerPreferredResources :: "APIResourceList list option"
  ParseGroupVersion :: "string \<Rightarrow> schemaGroupVersion option"
  ListObjects :: "GroupVersionResource \<Rightarrow> string option \<Rightarrow> Unstructured list option"
  MarshalJSON :: "Unstructured \<Rightarrow> string option"
  Join :: "string list \<Rightarrow> string"
  CreateFile :: "string \<Rightarrow> bool"
  CsvWriteOk :: "string list \<Rightarrow> bool"
  UserHomeDir :: "string option"
  OpenAndScan :: "string \<Rightarrow> (string list \<times> bool) option"

datatype LogMessage =
  ErrorMarshalling string
  | FailedToCreateFile
  | FailedToWriteCsv
  | CannotGetHomeDir
  | ErrorReadingExcludedFile string
  | DoneCollecting

datatype FatalMessage =
  FlagValidationError FlagError
  | FailedToLoadKubeconfig
  | FailedToDiscover

text \<open>
  The effects of a run, in order. \<open>Println\<close> is a line that \<^verbatim>\<open>fmt.Println\<close> writes
  to standard output, \<open>CsvRecord\<close> a record handed to the CSV writer over standard
  output, \<open>Log\<close> a line of the logger, \<open>Fatal\<close> a \<^verbatim>\<open>log.Fatalf\<close> (the process
  exits with status 1), \<open>Exit\<close> an \<^verbatim>\<open>os.Exit\<close>, \<open>ListCall\<close> a list request of the
  dynamic client, and \<open>MkdirAll\<close>, \<open>Create\<close> and \<open>WriteYAML\<close> the calls on the output
  tree. The CSV writer of a call of \<^verbatim>\<open>filterAndOutput\<close> is flushed when the call
  returns, and nothing else writes to standard output during the call, so the records
  reach standard output in the order of the list.
\<close>

datatype Event =
  Println string
  | CsvRecord "string list"
  | Log LogMessage
  | Fatal FatalMessage
  | Exit nat
  | ListCall GroupVersionResource "string option"
  | MkdirAll string
  | Create string
  | WriteYAML string string

section \<open>Filtering and output\<close>

text \<open>One iteration of the loop of \<^verbatim>\<open>filterAndOutput\<close>.\<close>

definition outputItem :: "Env \<Rightarrow> GroupVersionResource \<Rightarrow> ResourceFilter \<Rightarrow> Unstructured \<Rightarrow> Event list" where
  "outputItem env gvr flt item =
    (if \<not> passesTimeFilter flt (GetCreationTimestamp item) then []
     else
       case MarshalJSON env item of
         None \<Rightarrow> [Log (ErrorMarshalling (GetName item))]
       | Some out \<Rightarrow>
           if OutputDir flt \<noteq> [] then
             (let dir = Join env [OutputDir flt, GetNamespace item, Resource gvr];
                  filename =
                    (if HasSuffix (Group gvr) ''openshift.io''
                     then ''openshift_'' @ GetName item @ ''.yaml''
                     else GetName item @ ''.yaml'');
                  file = Join env [dir, filename]
              in [MkdirAll dir, Create file] @
                 (if CreateFile env file then [WriteYAML file out] else [Log FailedToCreateFile]))
           else if ResourceData flt then
             (let row = [GetKind item, Resource gvr, GetAPIVersion item, GetNamespace item,
                         GetName item, FormatTime env (GetCreationTimestamp item), out]
              in CsvRecord row # (if CsvWriteOk env row then [] else [Log FailedToWriteCsv]))
           else
             (let row = [GetKind item, Resource gvr, GetAPIVersion item, GetNamespace item,
                         GetName item, FormatTime env (GetCreationTimestamp item)]
              in CsvRecord row # (if CsvWriteOk env row then [] else [Log FailedToWriteCsv])))"

primrec filterAndOutput :: "Env \<Rightarrow> Unstructured list \<Rightarrow> GroupVersionResource \<Rightarrow> ResourceFilter \<Rightarrow> Event list" where
  "filterAndOutput env [] gvr flt = []"
| "filterAndOutput env (item # items) gvr flt =
    outputItem env gvr flt item @ filterAndOutput env items gvr flt"

section \<open>Excluded groups\<close>

text \<open>
  The loop of \<^verbatim>\<open>getExcludedGroups\<close> over the scanner's tokens. The
  \<^verbatim>\<open>map[string]bool\<close> is a function that is \<open>False\<close> at every key not stored.
\<close>

primrec scanExcluded :: "string list \<Rightarrow> (string \<Rightarrow> bool) \<Rightarrow> (string \<Rightarrow> bool)" where
  "scanExcluded [] excludedGroups = excludedGroups"
| "scanExcluded (text # rest) excludedGroups =
    (let line = TrimSpace text
     in if line = [] \<or> HasPrefix line ''#'' then scanExcluded rest excludedGroups
        else scanExcluded rest (excludedGroups(line := True)))"

definition getExcludedGroups :: "Env \<Rightarrow> string \<Rightarrow> Event list \<times> (string \<Rightarrow> bool)" where
  "getExcludedGroups env filename =
    (case UserHomeDir env of
       None \<Rightarrow> ([Log CannotGetHomeDir], \<lambda>g. False)
     | Some home \<Rightarrow>
         (let path = Join env [home, filename]
          in case OpenAndScan env path of
               None \<Rightarrow> ([], \<lambda>g. False)
             | Some (lines, scanErr) \<Rightarrow>
                 (if scanErr then [Log (ErrorReadingExcludedFile path)] else [],
                  scanExcluded lines (\<lambda>g. False))))"

section \<open>Discovery walk and listing\<close>

text \<open>
  \<^verbatim>\<open>processResources\<close>, innermost loop first. The slice \<open>namespaces\<close> is \<open>None\<close>
  when it is \<^verbatim>\<open>nil\<close>. A list call that fails is a \<^verbatim>\<open>continue\<close>: the call is
  made and nothing follows from it.
\<close>

primrec listNamespaces :: "Env \<Rightarrow> ResourceFilter \<Rightarrow> GroupVersionResource \<Rightarrow> string list \<Rightarrow> Event list" where
  "listNamespaces env flt gvr [] = []"
| "listNamespaces env flt gvr (ns # rest) =
    ListCall gvr (Some ns) #
    (case ListObjects env gvr (Some ns) of
       None \<Rightarrow> []
     | Some items \<Rightarrow> filterAndOutput env items gvr flt) @
    listNamespaces env flt gvr rest"

definition processResource ::
  "Env \<Rightarrow> ResourceFilter \<Rightarrow> string list option \<Rightarrow> bool \<Rightarrow> bool \<Rightarrow> schemaGroupVersion \<Rightarrow> APIResource
    \<Rightarrow> Event list" where
  "processResource env flt namespaces includeCluster processNamespacedResources gv resource =
    (if Contains (Name resource) ''/'' then []
     else if gvGroup gv = [] \<and> gvVersion gv = ''v1'' \<and>
             (Name resource = ''events'' \<or> Kind resource = ''Event'') then []
     else
       (let gvr = \<lparr>Group = gvGroup gv, Version = gvVersion gv, Resource = Name resource\<rparr>
        in if Namespaced resource \<and> processNamespacedResources then
             (if namespaces = None \<or>
                 (length (the namespaces) = 1 \<and> the namespaces ! 0 = ''*'') then
                ListCall gvr (Some NamespaceAll) #
                (case ListObjects env gvr (Some NamespaceAll) of
                   None \<Rightarrow> []
                 | Some items \<Rightarrow> filterAndOutput env items gvr flt)
              else listNamespaces env flt gvr (the namespaces))
           else if \<not> Namespaced resource \<and> includeCluster then
             ListCall gvr None #
             (case ListObjects env gvr None of
                None \<Rightarrow> []
              | Some items \<Rightarrow> filterAndOutput env items gvr flt)
           else []))"

primrec processGroupResources ::
  "Env \<Rightarrow> ResourceFilter \<Rightarrow> string list option \<Rightarrow> bool \<Rightarrow> bool \<Rightarrow> schemaGroupVersion
    \<Rightarrow> APIResource list \<Rightarrow> Event list" where
  "processGroupResources env flt namespaces includeCluster processNamespacedResources gv [] = []"
| "processGroupResources env flt namespaces includeCluster processNamespacedResources gv
     (resource # rest) =
    processResource env flt namespaces includeCluster processNamespacedResources gv resource @
    processGroupResources env flt namespaces includeCluster processNamespacedResources gv rest"

definition processGroup ::
  "Env \<Rightarrow> ResourceFilter \<Rightarrow> string list option \<Rightarrow> bool \<Rightarrow> bool \<Rightarrow> (string \<Rightarrow> bool)
    \<Rightarrow> APIResourceList \<Rightarrow> Event list" where
  "processGroup env flt namespaces includeCluster processNamespacedResources excludedGroups grp =
    (case ParseGroupVersion env (GroupVersion grp) of
       None \<Rightarrow> []
     | Some gv \<Rightarrow>
         if excludedGroups (gvGroup gv) then []
         else processGroupResources env flt namespaces includeCluster processNamespacedResources
                gv (APIResources grp))"

primrec processGroups ::
  "Env \<Rightarrow> ResourceFilter \<Rightarrow> string list option \<Rightarrow> bool \<Rightarrow> bool \<Rightarrow> (string \<Rightarrow> bool)
    \<Rightarrow> APIResourceList list \<Rightarrow> Event list" where
  "processGroups env flt namespaces includeCluster processNamespacedResources excludedGroups [] = []"
| "processGroups env flt namespaces includeCluster processNamespacedResources excludedGroups
     (grp # rest) =
    processGroup env flt namespaces includeCluster processNamespacedResources excludedGroups grp @
    processGroups env flt namespaces includeCluster processNamespacedResources excludedGroups rest"

definition processResources ::
  "Env \<Rightarrow> ResourceFilter \<Rightarrow> string list option \<Rightarrow> bool \<Rightarrow> bool \<Rightarrow> Event list" where
  "processResources env flt namespaces includeCluster processNamespacedResources =
    (case ServerPreferredResources env of
       None \<Rightarrow> [Fatal FailedToDiscover]
     | Some apiResources \<Rightarrow>
         (let (warnings, excludedGroups) = getExcludedGroups env ''.get-resources-excluded-groups''
          in warnings @
             processGroups env flt namespaces includeCluster processNamespacedResources
               excludedGroups apiResources @
             [Log DoneCollecting]))"

definition processAllResources :: "Env \<Rightarrow> ResourceFilter \<Rightarrow> Event list" where
  "processAllResources env flt = processResources env flt None True True"

definition processNamespacesAndCluster :: "Env \<Rightarrow> ResourceFilter \<Rightarrow> string list \<Rightarrow> Event list" where
  "processNamespacesAndCluster env flt namespaces = processResources env flt (Some namespaces) True True"

definition processOnlyNamespaces :: "Env \<Rightarrow> ResourceFilter \<Rightarrow> string list \<Rightarrow> Event list" where
  "processOnlyNamespaces env flt namespaces = processResources env flt (Some namespaces) False True"

definition processOnlyClusterResources :: "Env \<Rightarrow> ResourceFilter \<Rightarrow> Event list" where
  "processOnlyClusterResources env flt = processResources env flt None True False"

section \<open>The driver\<close>

primrec contains :: "string list \<Rightarrow> string \<Rightarrow> bool" where
  "contains [] val = False"
| "contains (v # rest) val = (if v = val then True else contains rest val)"

text \<open>The values of the command-line flags after \<^verbatim>\<open>flag.Parse\<close>.\<close>

record Flags =
  flagNamespace :: "string list"
  flagExcludeClusterResources :: bool
  flagBefore :: string
  flagAfter :: string
  flagStart :: string
  flagEnd :: string
  flagOutput :: string
  flagResourceData :: bool

definition headerWithData :: string where
  "headerWithData = ''kind,plural,apiversion,namespace,name,creationtimestamp,data''"

definition headerPlain :: string where
  "headerPlain = ''kind,plural,apiversion,namespace,name,creationtimestamp''"

text \<open>The header block of \<^verbatim>\<open>main\<close>.\<close>

definition printHeader :: "bool \<Rightarrow> string \<Rightarrow> Event list" where
  "printHeader resourceData outputDir =
    (if resourceData then [Println headerWithData]
     else if outputDir = [] then [Println headerPlain]
     else [])"

text \<open>The decision switch of \<^verbatim>\<open>main\<close>.\<close>

definition decide :: "Env \<Rightarrow> ResourceFilter \<Rightarrow> string list \<Rightarrow> bool \<Rightarrow> Event list" where
  "decide env flt namespaces excludeCluster =
    (if length namespaces = 0 then
       (if excludeCluster then
          [Println ''Nothing to process: no namespaces and cluster excluded'', Exit 0]
        else processAllResources env flt)
     else if length namespaces = 1 \<and> namespaces ! 0 = [] then
       processOnlyClusterResources env flt
     else if contains namespaces ''*'' then
       (if excludeCluster then processOnlyNamespaces env flt [''*'']
        else processAllResources env flt)
     else
       (if excludeCluster then processOnlyNamespaces env flt namespaces
        else processNamespacesAndCluster env flt namespaces))"

text \<open>
  \<^verbatim>\<open>main\<close>: flag validation, kubeconfig loading, the header, the decision switch.
  A fatal error ends the run. The code discards the errors of the two client
  constructors; what the clients return is the environment.
\<close>

definition main :: "Env \<Rightarrow> Flags \<Rightarrow> Event list" where
  "main env flags =
    (case validateAndBuildFilter (ParseTime env) (flagBefore flags) (flagAfter flags)
            (flagStart flags) (flagEnd flags) (flagOutput flags) (flagResourceData flags) of
       Inl err \<Rightarrow> [Fatal (FlagValidationError err)]
     | Inr flt \<Rightarrow>
         if \<not> KubeconfigLoads env then [Fatal FailedToLoadKubeconfig]
         else
           printHeader (flagResourceData flags) (flagOutput flags) @
           decide env flt (flagNamespace flags) (flagExcludeClusterResources flags))"

section \<open>A sample environment\<close>

text \<open>
  Concrete collaborators on which the theorems below are instantiated. \<open>sampleParse\<close>
  gives the instants of \<^verbatim>\<open>time.Parse(time.RFC3339, s)\<close> at five strings (and an error
  elsewhere): the zero instant, the instant one hour before it, and three instants around
  the start of 2025.
\<close>

definition t2025 :: Time where
  "t2025 = 63871286400000000000"

definition sampleParse :: "string \<Rightarrow> Time option" where
  "sampleParse s =
    (if s = ''0001-01-01T00:00:00Z'' then Some 0
     else if s = ''0001-01-01T00:00:00+01:00'' then Some (- 3600000000000)
     else if s = ''2024-12-31T23:59:59Z'' then Some (t2025 - 1000000000)
     else if s = ''2025-01-01T00:00:00Z'' then Some t2025
     else if s = ''2025-01-02T00:00:00Z'' then Some (t2025 + 86400000000000)
     else None)"

text \<open>
  \<^verbatim>\<open>schema.ParseGroupVersion\<close> of the API machinery: the empty string and a lone slash
  give the empty group and version, a string without slash is a version of the core
  group, one slash separates group and version, more slashes are an error.
\<close>

definition parseGroupVersion :: "string \<Rightarrow> schemaGroupVersion option" where
  "parseGroupVersion gv =
    (if gv = [] \<or> gv = ''/'' then Some \<lparr>gvGroup = [], gvVersion = []\<rparr>
     else if count_list gv CHR ''/'' = 0 then Some \<lparr>gvGroup = [], gvVersion = gv\<rparr>
     else if count_list gv CHR ''/'' = 1 then
       Some \<lparr>gvGroup = takeWhile (\<lambda>c. c \<noteq> CHR ''/'') gv,
             gvVersion = tl (dropWhile (\<lambda>c. c \<noteq> CHR ''/'') gv)\<rparr>
     else None)"

text \<open>Joining the non-empty elements with a slash, as \<^verbatim>\<open>filepath.Join\<close> does on clean elements.\<close>

fun joinPath :: "string list \<Rightarrow> string" where
  "joinPath [] = []"
| "joinPath (e # es) =
    (if e = [] then joinPath es
     else if joinPath es = [] then e
     else e @ ''/'' @ joinPath es)"

definition samplePod :: Unstructured where
  "samplePod = \<lparr>GetKind = ''Pod'', GetAPIVersion = ''v1'', GetNamespace = ''default'',
                 GetName = ''web'', creationTimestamp = Some t2025\<rparr>"

definition sampleRole :: Unstructured where
  "sampleRole = \<lparr>GetKind = ''Role'', GetAPIVersion = ''authorization.openshift.io/v1'',
                  GetNamespace = ''default'', GetName = ''foo'', creationTimestamp = Some t2025\<rparr>"

definition sampleNode :: Unstructured where
  "sampleNode = \<lparr>GetKind = ''Node'', GetAPIVersion = ''v1'', GetNamespace = [],
                  GetName = ''n1'', creationTimestamp = None\<rparr>"


definition sampleSnapshot :: "APIResourceList list" where
  "sampleSnapshot =
    [\<lparr>GroupVersion = ''v1'',
      APIResources =
        [\<lparr>Name = ''pods'', Namespaced = True, Kind = ''Pod''\<rparr>,
         \<lparr>Name = ''pods/status'', Namespaced = True, Kind = ''Pod''\<rparr>,
         \<lparr>Name = ''events'', Namespaced = True, Kind = ''Event''\<rparr>,
         \<lparr>Name = ''nodes'', Namespaced = False, Kind = ''Node''\<rparr>]\<rparr>,
     \<lparr>GroupVersion = ''a/b/c'',
      APIResources = [\<lparr>Name = ''widgets'', Namespaced = True, Kind = ''Widget''\<rparr>]\<rparr>,
     \<lparr>GroupVersion = ''metrics.k8s.io/v1beta1'',
      APIResources = [\<lparr>Name = ''pods'', Namespaced = True, Kind = ''PodMetrics''\<rparr>]\<rparr>,
     \<lparr>GroupVersion = ''authorization.openshift.io/v1'',
      APIResources = [\<lparr>Name = ''roles'', Namespaced = True, Kind = ''Role''\<rparr>]\<rparr>]"

definition sampleEnv :: Env where
  "sampleEnv =
    \<lparr>ParseTime = sampleParse,
     FormatTime = (\<lambda>t. if t = t2025 then ''2025-01-01T00:00:00Z'' else ''0001-01-01T00:00:00Z''),
     KubeconfigLoads = True,
     ServerPreferredResources = Some sampleSnapshot,
     ParseGroupVersion = parseGroupVersion,
     ListObjects =
       (\<lambda>gvr ns.
          if Resource gvr = ''pods'' then Some [samplePod]
          else if Resource gvr = ''roles'' then Some [sampleRole]
          else if Resource gvr = ''nodes'' then Some [sampleNode]
          else None),
     MarshalJSON =
       (\<lambda>item. if GetName item = ''broken'' then None else Some (''{name: '' @ GetName item @ ''}'')),
     Join = joinPath,
     CreateFile = (\<lambda>path. True),
     CsvWriteOk = (\<lambda>row. True),
     UserHomeDir = Some ''/home/u'',
     OpenAndScan =
       (\<lambda>path.
          if path = ''/home/u/.get-resources-excluded-groups''
          then Some ([''# skipped groups'', ''  metrics.k8s.io  '', []], False)
          else None)\<rparr>"

text \<open>Flags all at their defaults.\<close>

definition sampleFlags :: Flags where
  "sampleFlags =
    \<lparr>flagNamespace = [], flagExcludeClusterResources = False, flagBefore = [], flagAfter = [],
     flagStart = [], flagEnd = [], flagOutput = [], flagResourceData = False\<rparr>"

section \<open>Observing a list of effects\<close>



text \<open>Header lines, data rows and list calls among the effects.\<close>

fun isHeaderLine :: "Event \<Rightarrow> bool" where
  "isHeaderLine (Println s) = (s = headerPlain \<or> s = headerWithData)"
| "isHeaderLine e = False"

fun isDataRow :: "Event \<Rightarrow> bool" where
  "isDataRow (CsvRecord row) = True"
| "isDataRow e = False"


section \<open>The time filter\<close>

text \<open>
  C1. For every filter and every object, the time filter passes the object exactly when
  its creation timestamp \<open>t\<close> satisfies: the before bound is unset or \<open>t\<close> is strictly
  earlier; the after bound is unset or \<open>t\<close> is strictly later; the start bound is unset
  or \<open>t\<close> lies between start and end, both ends included. A bound is unset when it is
  the zero instant. The loop body produces an effect for exactly the objects that pass.
\<close>

theorem time_filter_bounds:
  "passesTimeFilter flt t =
     ((IsZero (BeforeT flt) \<or> t < BeforeT flt) \<and>
      (IsZero (After flt) \<or> After flt < t) \<and>
      (IsZero (Start flt) \<or> (Start flt \<le> t \<and> t \<le> End flt))) \<and>
   (outputItem env gvr flt item \<noteq> []) =
     ((IsZero (BeforeT flt) \<or> GetCreationTimestamp item < BeforeT flt) \<and>
      (IsZero (After flt) \<or> After flt < GetCreationTimestamp item) \<and>
      (IsZero (Start flt) \<or>
         (Start flt \<le> GetCreationTimestamp item \<and> GetCreationTimestamp item \<le> End flt)))"
proof -
  have bounds: "passesTimeFilter flt u =
     ((IsZero (BeforeT flt) \<or> u < BeforeT flt) \<and>
      (IsZero (After flt) \<or> After flt < u) \<and>
      (IsZero (Start flt) \<or> (Start flt \<le> u \<and> u \<le> End flt)))" for u
    by (auto simp: passesTimeFilter_def tBefore_def tAfter_def)
  have "(outputItem env gvr flt item \<noteq> []) = passesTimeFilter flt (GetCreationTimestamp item)"
    by (simp add: outputItem_def Let_def split: option.split)
  then show ?thesis
    using bounds [of t] bounds [of "GetCreationTimestamp item"] by simp
qed

theorem time_filter_bounds_witness:
  "passesTimeFilter (zeroFilter\<lparr>BeforeT := t2025\<rparr>) (t2025 - 1000000000) \<and>
   \<not> passesTimeFilter (zeroFilter\<lparr>BeforeT := t2025\<rparr>) t2025 \<and>
   \<not> passesTimeFilter (zeroFilter\<lparr>After := t2025\<rparr>) t2025 \<and>
   passesTimeFilter (zeroFilter\<lparr>After := t2025\<rparr>) (t2025 + 1) \<and>
   passesTimeFilter (zeroFilter\<lparr>Start := t2025, End := t2025 + 86400000000000\<rparr>) t2025 \<and>
   passesTimeFilter (zeroFilter\<lparr>Start := t2025, End := t2025 + 86400000000000\<rparr>)
     (t2025 + 86400000000000) \<and>
   \<not> passesTimeFilter (zeroFilter\<lparr>Start := t2025, End := t2025 + 86400000000000\<rparr>)
     (t2025 + 86400000000001) \<and>
   passesTimeFilter zeroFilter t2025"
  using time_filter_bounds [of "zeroFilter\<lparr>BeforeT := t2025\<rparr>" "t2025 - 1000000000"]
    time_filter_bounds [of "zeroFilter\<lparr>BeforeT := t2025\<rparr>" t2025]
    time_filter_bounds [of "zeroFilter\<lparr>After := t2025\<rparr>" t2025]
    time_filter_bounds [of "zeroFilter\<lparr>After := t2025\<rparr>" "t2025 + 1"]
    time_filter_bounds [of "zeroFilter\<lparr>Start := t2025, End := t2025 + 86400000000000\<rparr>" t2025]
    time_filter_bounds [of "zeroFilter\<lparr>Start := t2025, End := t2025 + 86400000000000\<rparr>"
      "t2025 + 86400000000000"]
    time_filter_bounds [of "zeroFilter\<lparr>Start := t2025, End := t2025 + 86400000000000\<rparr>"
      "t2025 + 86400000000001"]
    time_filter_bounds [of zeroFilter t2025]
  by (simp add: zeroFilter_def t2025_def IsZero_def)

section \<open>The filter builder\<close>

text \<open>The builder as one chain of tests, in the order of the code.\<close>

lemma validate_flat:
  "validateAndBuildFilter parse b a s e out rd =
    (if b \<noteq> [] \<and> a \<noteq> [] then Inl BothBeforeAndAfter
     else if (s = []) \<noteq> (e = []) then Inl StartEndNotTogether
     else if (b \<noteq> [] \<or> a \<noteq> []) \<and> s \<noteq> [] then Inl BeforeAfterWithStartEnd
     else if b \<noteq> [] \<and> parse b = None then Inl InvalidBefore
     else if a \<noteq> [] \<and> parse a = None then Inl InvalidAfter
     else if s \<noteq> [] \<and> parse s = None then Inl InvalidStart
     else if s \<noteq> [] \<and> parse e = None then Inl InvalidEnd
     else if rd \<and> out \<noteq> [] then Inl ResourceDataWithOutput
     else Inr \<lparr>BeforeT = (if b = [] then 0 else the (parse b)),
               After = (if a = [] then 0 else the (parse a)),
               Start = (if s = [] then 0 else the (parse s)),
               End = (if s = [] then 0 else the (parse e)),
               OutputDir = out, ResourceData = rd\<rparr>)"
  by (cases "b = []"; cases "a = []"; cases "s = []"; cases "e = []";
      simp add: validateAndBuildFilter_def zeroFilter_def split: option.split)

text \<open>
  C2 (as amended). For all six inputs the builder returns an error or a filter in which
  before and after are not both set, the pair start/end is not set together with before
  or after, and \<open>ResourceData\<close> is not combined with a non-empty \<open>OutputDir\<close>. The start
  and end options are both given or both omitted; in the filter, start and end are both
  set or both unset provided neither parses to the zero instant (a field equal to the
  zero instant is unset). Every field holds the instant parsed from its option, or the
  zero instant when the option is empty. A non-empty option that does not parse always
  gives an error.
\<close>

theorem filter_invariants:
  "(validateAndBuildFilter parse beforeStr afterStr startStr endStr output resourceData = Inr flt \<longrightarrow>
      \<not> (\<not> IsZero (BeforeT flt) \<and> \<not> IsZero (After flt)) \<and>
      ((startStr = []) = (endStr = [])) \<and>
      (parse startStr \<noteq> Some 0 \<and> parse endStr \<noteq> Some 0 \<longrightarrow> IsZero (Start flt) = IsZero (End flt)) \<and>
      \<not> ((\<not> IsZero (Start flt) \<or> \<not> IsZero (End flt)) \<and>
         (\<not> IsZero (BeforeT flt) \<or> \<not> IsZero (After flt))) \<and>
      \<not> (ResourceData flt \<and> OutputDir flt \<noteq> []) \<and>
      OutputDir flt = output \<and> ResourceData flt = resourceData \<and>
      (if beforeStr = [] then BeforeT flt = 0 else parse beforeStr = Some (BeforeT flt)) \<and>
      (if afterStr = [] then After flt = 0 else parse afterStr = Some (After flt)) \<and>
      (if startStr = [] then Start flt = 0 \<and> End flt = 0
       else parse startStr = Some (Start flt) \<and> parse endStr = Some (End flt))) \<and>
   ((beforeStr \<noteq> [] \<and> parse beforeStr = None) \<or> (afterStr \<noteq> [] \<and> parse afterStr = None) \<or>
    (startStr \<noteq> [] \<and> parse startStr = None) \<or> (endStr \<noteq> [] \<and> parse endStr = None) \<longrightarrow>
      (\<exists>err. validateAndBuildFilter parse beforeStr afterStr startStr endStr output resourceData = Inl err))"
  by (cases "beforeStr = []"; cases "afterStr = []"; cases "startStr = []"; cases "endStr = []";
      auto simp: validate_flat IsZero_def split: if_splits)

text \<open>
  C2 as stated fails: with start the zero instant and end in 2025 the builder succeeds
  and returns a filter whose start is unset and whose end is set.
\<close>

theorem filter_zero_start_counterexample:
  "validateAndBuildFilter sampleParse [] [] ''0001-01-01T00:00:00Z'' ''2025-01-01T00:00:00Z'' [] False =
     Inr (zeroFilter\<lparr>End := t2025\<rparr>) \<and>
   IsZero (Start (zeroFilter\<lparr>End := t2025\<rparr>)) \<and> \<not> IsZero (End (zeroFilter\<lparr>End := t2025\<rparr>))"
  by (simp add: validateAndBuildFilter_def sampleParse_def zeroFilter_def IsZero_def t2025_def)

theorem filter_invariants_witness:
  "validateAndBuildFilter sampleParse [] [] ''2025-01-01T00:00:00Z'' ''2025-01-02T00:00:00Z'' ''out'' False =
     Inr (zeroFilter\<lparr>Start := t2025, End := t2025 + 86400000000000, OutputDir := ''out''\<rparr>) \<and>
   IsZero (BeforeT (zeroFilter\<lparr>Start := t2025, End := t2025 + 86400000000000, OutputDir := ''out''\<rparr>)) \<and>
   \<not> IsZero (Start (zeroFilter\<lparr>Start := t2025, End := t2025 + 86400000000000, OutputDir := ''out''\<rparr>)) \<and>
   \<not> IsZero (End (zeroFilter\<lparr>Start := t2025, End := t2025 + 86400000000000, OutputDir := ''out''\<rparr>)) \<and>
   (\<exists>err. validateAndBuildFilter sampleParse ''yesterday'' [] [] [] [] False = Inl err)"
proof -
  have ok: "validateAndBuildFilter sampleParse [] [] ''2025-01-01T00:00:00Z'' ''2025-01-02T00:00:00Z'' ''out'' False =
     Inr (zeroFilter\<lparr>Start := t2025, End := t2025 + 86400000000000, OutputDir := ''out''\<rparr>)"
    by (simp add: validateAndBuildFilter_def sampleParse_def zeroFilter_def)
  have bad: "''yesterday'' \<noteq> [] \<and> sampleParse ''yesterday'' = None"
    by (simp add: sampleParse_def)
  show ?thesis
    using ok bad
      filter_invariants [of sampleParse "[]" "[]" "''2025-01-01T00:00:00Z''" "''2025-01-02T00:00:00Z''"
        "''out''" False "zeroFilter\<lparr>Start := t2025, End := t2025 + 86400000000000, OutputDir := ''out''\<rparr>"]
      filter_invariants [of sampleParse "''yesterday''" "[]" "[]" "[]" "[]" False zeroFilter]
    by (simp add: zeroFilter_def IsZero_def t2025_def)
qed

section \<open>An inverted window\<close>

text \<open>
  C10 (as amended). For parseable non-empty start and end options with end strictly
  earlier than start, before and after empty, the start not the zero instant, and
  \<open>resourceData\<close> not combined with an output directory, the builder succeeds (it never
  compares start with end) and the filter rejects every object.
\<close>

theorem inverted_window_rejects_all:
  "parse startStr = Some s \<and> parse endStr = Some e \<and> e < s \<and> startStr \<noteq> [] \<and> endStr \<noteq> [] \<and>
   s \<noteq> 0 \<and> \<not> (resourceData \<and> output \<noteq> []) \<longrightarrow>
     validateAndBuildFilter parse [] [] startStr endStr output resourceData =
       Inr (zeroFilter\<lparr>Start := s, End := e, OutputDir := output, ResourceData := resourceData\<rparr>) \<and>
     (\<forall>t. \<not> passesTimeFilter
        (zeroFilter\<lparr>Start := s, End := e, OutputDir := output, ResourceData := resourceData\<rparr>) t)"
  by (auto simp: validateAndBuildFilter_def zeroFilter_def passesTimeFilter_def IsZero_def tBefore_def tAfter_def)

text \<open>
  C10 as stated fails twice: when start is the zero instant the window is unset and an
  object of 2025 passes; and with \<open>resourceData\<close> and an output directory the builder
  returns an error.
\<close>

theorem inverted_window_counterexample:
  "sampleParse ''0001-01-01T00:00:00Z'' = Some 0 \<and>
   sampleParse ''0001-01-01T00:00:00+01:00'' = Some (- 3600000000000) \<and>
   validateAndBuildFilter sampleParse [] [] ''0001-01-01T00:00:00Z'' ''0001-01-01T00:00:00+01:00'' [] False =
     Inr (zeroFilter\<lparr>End := - 3600000000000\<rparr>) \<and>
   t2025 \<noteq> 0 \<and>
   passesTimeFilter (zeroFilter\<lparr>End := - 3600000000000\<rparr>) t2025 \<and>
   validateAndBuildFilter sampleParse [] [] ''2025-01-02T00:00:00Z'' ''2025-01-01T00:00:00Z'' ''out'' True =
     Inl ResourceDataWithOutput"
  by (simp add: validateAndBuildFilter_def sampleParse_def zeroFilter_def IsZero_def t2025_def passesTimeFilter_def)

theorem inverted_window_witness:
  "validateAndBuildFilter sampleParse [] [] ''2025-01-02T00:00:00Z'' ''2025-01-01T00:00:00Z'' [] False =
     Inr (zeroFilter\<lparr>Start := t2025 + 86400000000000, End := t2025\<rparr>) \<and>
   \<not> passesTimeFilter (zeroFilter\<lparr>Start := t2025 + 86400000000000, End := t2025\<rparr>) (t2025 + 5) \<and>
   \<not> passesTimeFilter (zeroFilter\<lparr>Start := t2025 + 86400000000000, End := t2025\<rparr>) 0"
  using inverted_window_rejects_all [of sampleParse "''2025-01-02T00:00:00Z''" "t2025 + 86400000000000"
      "''2025-01-01T00:00:00Z''" t2025 False "[]"]
  by (simp add: sampleParse_def t2025_def zeroFilter_def)

section \<open>Objects without creation timestamp\<close>

text \<open>
  C7 (as amended). An object without creation timestamp has the zero instant. It is
  rejected by an after bound later than the zero instant and by a window whose start is
  later than the zero instant, and it passes a before bound later than the zero instant
  (no after bound and no window being set). Bounds earlier than the zero instant do the
  opposite: such an after bound passes it, such a before bound rejects it.
\<close>

theorem missing_timestamp_zero:
  "creationTimestamp item = None \<longrightarrow>
     GetCreationTimestamp item = 0 \<and>
     (0 < After flt \<longrightarrow>
        \<not> passesTimeFilter flt (GetCreationTimestamp item) \<and> outputItem env gvr flt item = []) \<and>
     (0 < Start flt \<longrightarrow>
        \<not> passesTimeFilter flt (GetCreationTimestamp item) \<and> outputItem env gvr flt item = []) \<and>
     (0 < BeforeT flt \<and> IsZero (After flt) \<and> IsZero (Start flt) \<longrightarrow>
        passesTimeFilter flt (GetCreationTimestamp item)) \<and>
     (After flt < 0 \<and> IsZero (BeforeT flt) \<and> IsZero (Start flt) \<longrightarrow>
        passesTimeFilter flt (GetCreationTimestamp item)) \<and>
     (BeforeT flt < 0 \<longrightarrow>
        \<not> passesTimeFilter flt (GetCreationTimestamp item) \<and> outputItem env gvr flt item = [])"
  by (auto simp: GetCreationTimestamp_def passesTimeFilter_def outputItem_def IsZero_def
      tBefore_def tAfter_def)

text \<open>
  C7 as stated fails: an after bound one hour before the zero instant is set and passes
  the object; a before bound at the same instant is set and rejects it.
\<close>

theorem missing_timestamp_counterexample:
  "creationTimestamp sampleNode = None \<and>
   validateAndBuildFilter sampleParse [] ''0001-01-01T00:00:00+01:00'' [] [] [] False =
     Inr (zeroFilter\<lparr>After := - 3600000000000\<rparr>) \<and>
   \<not> IsZero (After (zeroFilter\<lparr>After := - 3600000000000\<rparr>)) \<and>
   passesTimeFilter (zeroFilter\<lparr>After := - 3600000000000\<rparr>) (GetCreationTimestamp sampleNode) \<and>
   validateAndBuildFilter sampleParse ''0001-01-01T00:00:00+01:00'' [] [] [] [] False =
     Inr (zeroFilter\<lparr>BeforeT := - 3600000000000\<rparr>) \<and>
   \<not> IsZero (BeforeT (zeroFilter\<lparr>BeforeT := - 3600000000000\<rparr>)) \<and>
   \<not> passesTimeFilter (zeroFilter\<lparr>BeforeT := - 3600000000000\<rparr>) (GetCreationTimestamp sampleNode)"
  by (simp add: validateAndBuildFilter_def sampleParse_def zeroFilter_def IsZero_def sampleNode_def
      GetCreationTimestamp_def passesTimeFilter_def tBefore_def tAfter_def)

theorem missing_timestamp_witness:
  "GetCreationTimestamp sampleNode = 0 \<and>
   outputItem sampleEnv \<lparr>Group = [], Version = ''v1'', Resource = ''nodes''\<rparr>
     (zeroFilter\<lparr>After := t2025\<rparr>) sampleNode = [] \<and>
   outputItem sampleEnv \<lparr>Group = [], Version = ''v1'', Resource = ''nodes''\<rparr>
     (zeroFilter\<lparr>Start := t2025, End := t2025 + 1\<rparr>) sampleNode = [] \<and>
   passesTimeFilter (zeroFilter\<lparr>BeforeT := t2025\<rparr>) (GetCreationTimestamp sampleNode)"
  using missing_timestamp_zero [of sampleNode "zeroFilter\<lparr>After := t2025\<rparr>" sampleEnv
      "\<lparr>Group = [], Version = ''v1'', Resource = ''nodes''\<rparr>"]
    missing_timestamp_zero [of sampleNode "zeroFilter\<lparr>Start := t2025, End := t2025 + 1\<rparr>" sampleEnv
      "\<lparr>Group = [], Version = ''v1'', Resource = ''nodes''\<rparr>"]
    missing_timestamp_zero [of sampleNode "zeroFilter\<lparr>BeforeT := t2025\<rparr>" sampleEnv
      "\<lparr>Group = [], Version = ''v1'', Resource = ''nodes''\<rparr>"]
  by (simp add: sampleNode_def zeroFilter_def t2025_def IsZero_def)

section \<open>The sink router\<close>




section \<open>The path in the output tree\<close>

text \<open>
  C6. For every object routed to the tree sink, the directory is the join of
  \<open>OutputDir\<close>, the object's namespace (empty for a cluster-scoped object) and the
  plural; the file is the join of that directory and the prefix, the name and
  \<^verbatim>\<open>.yaml\<close>, where the prefix is \<^verbatim>\<open>openshift_\<close> if the group ends with
  \<^verbatim>\<open>openshift.io\<close> and empty otherwise.
\<close>

theorem tree_sink_path:
  "passesTimeFilter flt (GetCreationTimestamp item) \<and> MarshalJSON env item = Some out \<and>
   OutputDir flt \<noteq> [] \<longrightarrow>
     outputItem env gvr flt item =
       [MkdirAll (Join env [OutputDir flt, GetNamespace item, Resource gvr]),
        Create (Join env [Join env [OutputDir flt, GetNamespace item, Resource gvr],
                          (if HasSuffix (Group gvr) ''openshift.io'' then ''openshift_'' else []) @
                          GetName item @ ''.yaml''])] @
       (if CreateFile env
             (Join env [Join env [OutputDir flt, GetNamespace item, Resource gvr],
                        (if HasSuffix (Group gvr) ''openshift.io'' then ''openshift_'' else []) @
                        GetName item @ ''.yaml''])
        then [WriteYAML
                (Join env [Join env [OutputDir flt, GetNamespace item, Resource gvr],
                           (if HasSuffix (Group gvr) ''openshift.io'' then ''openshift_'' else []) @
                           GetName item @ ''.yaml''])
                out]
        else [Log FailedToCreateFile])"
  by (simp add: outputItem_def Let_def)

theorem tree_sink_path_witness:
  "outputItem sampleEnv \<lparr>Group = ''authorization.openshift.io'', Version = ''v1'', Resource = ''roles''\<rparr>
     (zeroFilter\<lparr>OutputDir := ''out''\<rparr>) sampleRole =
     [MkdirAll ''out/default/roles'', Create ''out/default/roles/openshift_foo.yaml'',
      WriteYAML ''out/default/roles/openshift_foo.yaml'' ''{name: foo}''] \<and>
   outputItem sampleEnv \<lparr>Group = [], Version = ''v1'', Resource = ''nodes''\<rparr>
     (zeroFilter\<lparr>OutputDir := ''out''\<rparr>) sampleNode =
     [MkdirAll ''out/nodes'', Create ''out/nodes/n1.yaml'', WriteYAML ''out/nodes/n1.yaml'' ''{name: n1}'']"
  using tree_sink_path [of "zeroFilter\<lparr>OutputDir := ''out''\<rparr>" sampleRole sampleEnv "''{name: foo}''"
      "\<lparr>Group = ''authorization.openshift.io'', Version = ''v1'', Resource = ''roles''\<rparr>"]
    tree_sink_path [of "zeroFilter\<lparr>OutputDir := ''out''\<rparr>" sampleNode sampleEnv "''{name: n1}''"
      "\<lparr>Group = [], Version = ''v1'', Resource = ''nodes''\<rparr>"]
  by (simp add: passesTimeFilter_def zeroFilter_def IsZero_def sampleRole_def sampleNode_def sampleEnv_def
      GetCreationTimestamp_def HasSuffix_def suffix_to_prefix)

section \<open>The discovery walk\<close>

text \<open>List calls come from the walk only, and each carries the coordinate of its descriptor.\<close>

lemma Contains_slash: "Contains s ''/'' = (CHR ''/'' \<in> set s)"
  by (auto simp: Contains_def sublist_def in_set_conv_decomp)

lemma outputItem_no_ListCall: "ListCall g n \<notin> set (outputItem env gvr flt item)"
  by (simp add: outputItem_def Let_def split: option.split)

lemma filterAndOutput_no_ListCall: "ListCall g n \<notin> set (filterAndOutput env items gvr flt)"
  by (induction items) (simp_all add: outputItem_no_ListCall)

lemma listed_no_ListCall:
  "ListCall g n \<notin> set (case ListObjects env gvr ns of None \<Rightarrow> [] | Some items \<Rightarrow> filterAndOutput env items gvr flt)"
  by (simp add: filterAndOutput_no_ListCall split: option.split)

lemma listNamespaces_ListCall:
  "ListCall g n \<in> set (listNamespaces env flt gvr nss) \<Longrightarrow> g = gvr \<and> n \<in> Some ` set nss"
  by (induction nss) (auto simp: filterAndOutput_no_ListCall split: option.splits)

lemma processResource_ListCall:
  assumes "ListCall g n \<in> set (processResource env flt namespaces includeCluster pn gv resource)"
  shows "g = \<lparr>Group = gvGroup gv, Version = gvVersion gv, Resource = Name resource\<rparr> \<and>
         \<not> Contains (Name resource) ''/'' \<and>
         \<not> (gvGroup gv = [] \<and> gvVersion gv = ''v1'' \<and>
            (Name resource = ''events'' \<or> Kind resource = ''Event''))"
  using assms
  by (auto simp: processResource_def Let_def filterAndOutput_no_ListCall
      dest: listNamespaces_ListCall split: if_splits option.splits)

lemma processGroupResources_ListCall:
  "ListCall g n \<in> set (processGroupResources env flt namespaces includeCluster pn gv rs) \<Longrightarrow>
     \<exists>resource \<in> set rs.
       g = \<lparr>Group = gvGroup gv, Version = gvVersion gv, Resource = Name resource\<rparr> \<and>
       \<not> Contains (Name resource) ''/'' \<and>
       \<not> (gvGroup gv = [] \<and> gvVersion gv = ''v1'' \<and>
          (Name resource = ''events'' \<or> Kind resource = ''Event''))"
proof (induction rs)
  case Nil
  then show ?case by simp
next
  case (Cons r rs)
  from Cons.prems have
    "ListCall g n \<in> set (processResource env flt namespaces includeCluster pn gv r) \<or>
     ListCall g n \<in> set (processGroupResources env flt namespaces includeCluster pn gv rs)"
    by simp
  then show ?case
  proof
    assume "ListCall g n \<in> set (processResource env flt namespaces includeCluster pn gv r)"
    from processResource_ListCall [OF this] show ?thesis by simp
  next
    assume "ListCall g n \<in> set (processGroupResources env flt namespaces includeCluster pn gv rs)"
    from Cons.IH [OF this] show ?thesis by auto
  qed
qed

lemma processGroup_ListCall:
  assumes "ListCall g n \<in> set (processGroup env flt namespaces includeCluster pn excluded grp)"
  shows "\<exists>resource \<in> set (APIResources grp).
           ParseGroupVersion env (GroupVersion grp) =
             Some \<lparr>gvGroup = Group g, gvVersion = Version g\<rparr> \<and>
           \<not> excluded (Group g) \<and>
           Name resource = Resource g \<and>
           \<not> Contains (Resource g) ''/'' \<and>
           \<not> (Group g = [] \<and> Version g = ''v1'' \<and>
              (Resource g = ''events'' \<or> Kind resource = ''Event''))"
proof (cases "ParseGroupVersion env (GroupVersion grp)")
  case None
  with assms show ?thesis by (simp add: processGroup_def)
next
  case (Some gv)
  with assms have ne: "\<not> excluded (gvGroup gv)"
    and call: "ListCall g n \<in> set (processGroupResources env flt namespaces includeCluster pn gv (APIResources grp))"
    by (auto simp: processGroup_def split: if_splits)
  from processGroupResources_ListCall [OF call] obtain resource where
    r: "resource \<in> set (APIResources grp)"
      "g = \<lparr>Group = gvGroup gv, Version = gvVersion gv, Resource = Name resource\<rparr>"
      "\<not> Contains (Name resource) ''/''"
      "\<not> (gvGroup gv = [] \<and> gvVersion gv = ''v1'' \<and>
          (Name resource = ''events'' \<or> Kind resource = ''Event''))"
    by blast
  from r(2) have g: "Group g = gvGroup gv" "Version g = gvVersion gv" "Resource g = Name resource"
    by simp_all
  have "ParseGroupVersion env (GroupVersion grp) = Some \<lparr>gvGroup = Group g, gvVersion = Version g\<rparr>"
    using Some g by simp
  moreover have "\<not> excluded (Group g)" using ne g by simp
  moreover have "Name resource = Resource g" using g by simp
  moreover have "\<not> Contains (Resource g) ''/''" using r(3) g by simp
  moreover have "\<not> (Group g = [] \<and> Version g = ''v1'' \<and>
              (Resource g = ''events'' \<or> Kind resource = ''Event''))"
    using r(4) g by simp
  ultimately show ?thesis using r(1) by blast
qed

lemma processGroups_ListCall:
  "ListCall g n \<in> set (processGroups env flt namespaces includeCluster pn excluded groups) \<Longrightarrow>
     \<exists>grp \<in> set groups. ListCall g n \<in> set (processGroup env flt namespaces includeCluster pn excluded grp)"
  by (induction groups) auto

lemma getExcludedGroups_no_ListCall: "ListCall g n \<notin> set (fst (getExcludedGroups env filename))"
  by (simp add: getExcludedGroups_def Let_def split: option.split prod.split)

lemma processGroups_append:
  "processGroups env flt namespaces includeCluster pn excluded (xs @ ys) =
   processGroups env flt namespaces includeCluster pn excluded xs @
   processGroups env flt namespaces includeCluster pn excluded ys"
  by (induction xs) simp_all

text \<open>
  C3. Every list call of \<^verbatim>\<open>processResources\<close> is for a coordinate whose plural has
  no slash, that is not the core \<^verbatim>\<open>v1\<close> coordinate \<^verbatim>\<open>events\<close>, and whose group is
  not in the exclusion set; it comes from a descriptor of the snapshot, in a group whose
  \<^verbatim>\<open>groupVersion\<close> parses, that is not of kind \<^verbatim>\<open>Event\<close> in core \<^verbatim>\<open>v1\<close>.
  A descriptor with a slash in its name, or of the core \<^verbatim>\<open>v1\<close> group with name
  \<^verbatim>\<open>events\<close> or kind \<^verbatim>\<open>Event\<close>, has no effect at all; neither has an excluded
  group; and a group whose \<^verbatim>\<open>groupVersion\<close> does not parse has no effect (no error
  either): the walk is the same with the group removed from the snapshot.
\<close>

theorem discovery_walk_skips:
  "(ListCall gvr ns \<in> set (processResources env flt namespaces includeCluster pn) \<longrightarrow>
      CHR ''/'' \<notin> set (Resource gvr) \<and>
      \<not> (Group gvr = [] \<and> Version gvr = ''v1'' \<and> Resource gvr = ''events'') \<and>
      \<not> snd (getExcludedGroups env ''.get-resources-excluded-groups'') (Group gvr) \<and>
      (\<exists>apiResources grp resource.
         ServerPreferredResources env = Some apiResources \<and> grp \<in> set apiResources \<and>
         resource \<in> set (APIResources grp) \<and>
         ParseGroupVersion env (GroupVersion grp) =
           Some \<lparr>gvGroup = Group gvr, gvVersion = Version gvr\<rparr> \<and>
         Name resource = Resource gvr \<and>
         \<not> (Group gvr = [] \<and> Version gvr = ''v1'' \<and> Kind resource = ''Event''))) \<and>
   (Contains (Name resource) ''/'' \<or>
    (gvGroup gv = [] \<and> gvVersion gv = ''v1'' \<and>
       (Name resource = ''events'' \<or> Kind resource = ''Event'')) \<longrightarrow>
      processResource env flt namespaces includeCluster pn gv resource = []) \<and>
   (ParseGroupVersion env (GroupVersion grp) = Some gv \<and> excluded (gvGroup gv) \<longrightarrow>
      processGroup env flt namespaces includeCluster pn excluded grp = []) \<and>
   (ParseGroupVersion env (GroupVersion grp) = None \<longrightarrow>
      processGroup env flt namespaces includeCluster pn excluded grp = [] \<and>
      processGroups env flt namespaces includeCluster pn excluded (pre @ grp # post) =
        processGroups env flt namespaces includeCluster pn excluded (pre @ post))"
proof -
  have walk: "CHR ''/'' \<notin> set (Resource gvr) \<and>
      \<not> (Group gvr = [] \<and> Version gvr = ''v1'' \<and> Resource gvr = ''events'') \<and>
      \<not> snd (getExcludedGroups env ''.get-resources-excluded-groups'') (Group gvr) \<and>
      (\<exists>apiResources grp resource.
         ServerPreferredResources env = Some apiResources \<and> grp \<in> set apiResources \<and>
         resource \<in> set (APIResources grp) \<and>
         ParseGroupVersion env (GroupVersion grp) =
           Some \<lparr>gvGroup = Group gvr, gvVersion = Version gvr\<rparr> \<and>
         Name resource = Resource gvr \<and>
         \<not> (Group gvr = [] \<and> Version gvr = ''v1'' \<and> Kind resource = ''Event''))"
    if call: "ListCall gvr ns \<in> set (processResources env flt namespaces includeCluster pn)"
  proof -
    obtain warnings excl where ge: "getExcludedGroups env ''.get-resources-excluded-groups'' = (warnings, excl)"
      by (cases "getExcludedGroups env ''.get-resources-excluded-groups''")
    from call obtain apiResources where
      snap: "ServerPreferredResources env = Some apiResources"
      by (cases "ServerPreferredResources env") (auto simp: processResources_def)
    have "ListCall gvr ns \<notin> set warnings"
      using getExcludedGroups_no_ListCall [of gvr ns env "''.get-resources-excluded-groups''"] ge by simp
    with call snap ge have
      "ListCall gvr ns \<in> set (processGroups env flt namespaces includeCluster pn excl apiResources)"
      by (simp add: processResources_def)
    from processGroups_ListCall [OF this] obtain grp where
      grp: "grp \<in> set apiResources"
        "ListCall gvr ns \<in> set (processGroup env flt namespaces includeCluster pn excl grp)"
      by blast
    from processGroup_ListCall [OF grp(2)] obtain resource where
      r: "resource \<in> set (APIResources grp)"
        "ParseGroupVersion env (GroupVersion grp) = Some \<lparr>gvGroup = Group gvr, gvVersion = Version gvr\<rparr>"
        "\<not> excl (Group gvr)" "Name resource = Resource gvr"
        "\<not> Contains (Resource gvr) ''/''"
        "\<not> (Group gvr = [] \<and> Version gvr = ''v1'' \<and>
            (Resource gvr = ''events'' \<or> Kind resource = ''Event''))"
      by blast
    from r(5) have "CHR ''/'' \<notin> set (Resource gvr)" by (simp add: Contains_slash)
    moreover from r(6) have "\<not> (Group gvr = [] \<and> Version gvr = ''v1'' \<and> Resource gvr = ''events'')"
      by blast
    moreover from r(3) ge have "\<not> snd (getExcludedGroups env ''.get-resources-excluded-groups'') (Group gvr)"
      by simp
    moreover from snap grp(1) r(1,2,4,6) have "\<exists>apiResources grp resource.
         ServerPreferredResources env = Some apiResources \<and> grp \<in> set apiResources \<and>
         resource \<in> set (APIResources grp) \<and>
         ParseGroupVersion env (GroupVersion grp) =
           Some \<lparr>gvGroup = Group gvr, gvVersion = Version gvr\<rparr> \<and>
         Name resource = Resource gvr \<and>
         \<not> (Group gvr = [] \<and> Version gvr = ''v1'' \<and> Kind resource = ''Event'')"
      by blast
    ultimately show ?thesis by blast
  qed
  have res: "processResource env flt namespaces includeCluster pn gv resource = []"
    if "Contains (Name resource) ''/'' \<or>
        (gvGroup gv = [] \<and> gvVersion gv = ''v1'' \<and>
          (Name resource = ''events'' \<or> Kind resource = ''Event''))"
    using that by (auto simp: processResource_def)
  have excl: "processGroup env flt namespaces includeCluster pn excluded grp = []"
    if "ParseGroupVersion env (GroupVersion grp) = Some gv \<and> excluded (gvGroup gv)"
    using that by (simp add: processGroup_def)
  have unparsed: "processGroup env flt namespaces includeCluster pn excluded grp = [] \<and>
      processGroups env flt namespaces includeCluster pn excluded (pre @ grp # post) =
        processGroups env flt namespaces includeCluster pn excluded (pre @ post)"
    if "ParseGroupVersion env (GroupVersion grp) = None"
    using that by (simp add: processGroup_def processGroups_append)
  from walk res excl unparsed show ?thesis by blast
qed

theorem discovery_walk_skips_witness:
  "ListCall \<lparr>Group = [], Version = ''v1'', Resource = ''pods''\<rparr> (Some [])
     \<in> set (processResources sampleEnv zeroFilter None True True) \<and>
   CHR ''/'' \<notin> set ''pods'' \<and>
   \<not> snd (getExcludedGroups sampleEnv ''.get-resources-excluded-groups'') [] \<and>
   processResource sampleEnv zeroFilter None True True \<lparr>gvGroup = [], gvVersion = ''v1''\<rparr>
     \<lparr>Name = ''pods/status'', Namespaced = True, Kind = ''Pod''\<rparr> = [] \<and>
   processResource sampleEnv zeroFilter None True True \<lparr>gvGroup = [], gvVersion = ''v1''\<rparr>
     \<lparr>Name = ''events'', Namespaced = True, Kind = ''Event''\<rparr> = [] \<and>
   processGroup sampleEnv zeroFilter None True True
     (snd (getExcludedGroups sampleEnv ''.get-resources-excluded-groups''))
     \<lparr>GroupVersion = ''metrics.k8s.io/v1beta1'',
      APIResources = [\<lparr>Name = ''pods'', Namespaced = True, Kind = ''PodMetrics''\<rparr>]\<rparr> = [] \<and>
   processGroup sampleEnv zeroFilter None True True (\<lambda>g. False)
     \<lparr>GroupVersion = ''a/b/c'',
      APIResources = [\<lparr>Name = ''widgets'', Namespaced = True, Kind = ''Widget''\<rparr>]\<rparr> = []"
proof -
  have call: "ListCall \<lparr>Group = [], Version = ''v1'', Resource = ''pods''\<rparr> (Some [])
      \<in> set (processResources sampleEnv zeroFilter None True True)"
    by code_simp
  have slash: "Contains (Name \<lparr>Name = ''pods/status'', Namespaced = True, Kind = ''Pod''\<rparr>) ''/''"
    by code_simp
  have event: "gvGroup \<lparr>gvGroup = [], gvVersion = ''v1''\<rparr> = [] \<and>
      gvVersion \<lparr>gvGroup = [], gvVersion = ''v1''\<rparr> = ''v1'' \<and>
      (Name \<lparr>Name = ''events'', Namespaced = True, Kind = ''Event''\<rparr> = ''events'' \<or>
       Kind \<lparr>Name = ''events'', Namespaced = True, Kind = ''Event''\<rparr> = ''Event'')"
    by simp
  have excl: "ParseGroupVersion sampleEnv
        (GroupVersion \<lparr>GroupVersion = ''metrics.k8s.io/v1beta1'',
           APIResources = [\<lparr>Name = ''pods'', Namespaced = True, Kind = ''PodMetrics''\<rparr>]\<rparr>) =
        Some \<lparr>gvGroup = ''metrics.k8s.io'', gvVersion = ''v1beta1''\<rparr> \<and>
      snd (getExcludedGroups sampleEnv ''.get-resources-excluded-groups'')
        (gvGroup \<lparr>gvGroup = ''metrics.k8s.io'', gvVersion = ''v1beta1''\<rparr>)"
    by code_simp
  have unparsed: "ParseGroupVersion sampleEnv
        (GroupVersion \<lparr>GroupVersion = ''a/b/c'',
           APIResources = [\<lparr>Name = ''widgets'', Namespaced = True, Kind = ''Widget''\<rparr>]\<rparr>) = None"
    by code_simp
  show ?thesis
    using call
      discovery_walk_skips [where env = sampleEnv and flt = zeroFilter and namespaces = None
        and includeCluster = True and pn = True
        and gvr = "\<lparr>Group = [], Version = ''v1'', Resource = ''pods''\<rparr>" and ns = "Some []"
        and resource = "\<lparr>Name = ''pods/status'', Namespaced = True, Kind = ''Pod''\<rparr>"
        and gv = "\<lparr>gvGroup = [], gvVersion = ''v1''\<rparr>"
        and grp = "\<lparr>GroupVersion = ''a/b/c'',
           APIResources = [\<lparr>Name = ''widgets'', Namespaced = True, Kind = ''Widget''\<rparr>]\<rparr>"
        and excluded = "\<lambda>g. False" and pre = "[]" and post = "[]"]
      discovery_walk_skips [where env = sampleEnv and flt = zeroFilter and namespaces = None
        and includeCluster = True and pn = True
        and gvr = "\<lparr>Group = [], Version = ''v1'', Resource = ''pods''\<rparr>" and ns = "Some []"
        and resource = "\<lparr>Name = ''events'', Namespaced = True, Kind = ''Event''\<rparr>"
        and gv = "\<lparr>gvGroup = ''metrics.k8s.io'', gvVersion = ''v1beta1''\<rparr>"
        and grp = "\<lparr>GroupVersion = ''metrics.k8s.io/v1beta1'',
           APIResources = [\<lparr>Name = ''pods'', Namespaced = True, Kind = ''PodMetrics''\<rparr>]\<rparr>"
        and excluded = "snd (getExcludedGroups sampleEnv ''.get-resources-excluded-groups'')"
        and pre = "[]" and post = "[]"]
      discovery_walk_skips [where env = sampleEnv and flt = zeroFilter and namespaces = None
        and includeCluster = True and pn = True
        and gvr = "\<lparr>Group = [], Version = ''v1'', Resource = ''pods''\<rparr>" and ns = "Some []"
        and resource = "\<lparr>Name = ''events'', Namespaced = True, Kind = ''Event''\<rparr>"
        and gv = "\<lparr>gvGroup = [], gvVersion = ''v1''\<rparr>"
        and grp = "\<lparr>GroupVersion = ''a/b/c'',
           APIResources = [\<lparr>Name = ''widgets'', Namespaced = True, Kind = ''Widget''\<rparr>]\<rparr>"
        and excluded = "\<lambda>g. False" and pre = "[]" and post = "[]"]
      slash event excl unparsed
    by simp
qed

section \<open>The header\<close>


lemma outputItem_no_header: "filter isHeaderLine (outputItem env gvr flt item) = []"
  by (simp add: outputItem_def Let_def split: option.split)

lemma filterAndOutput_no_header: "filter isHeaderLine (filterAndOutput env items gvr flt) = []"
  by (induction items) (simp_all add: outputItem_no_header)

lemma listNamespaces_no_header: "filter isHeaderLine (listNamespaces env flt gvr nss) = []"
  by (induction nss) (simp_all add: filterAndOutput_no_header split: option.split)

lemma processResource_no_header:
  "filter isHeaderLine (processResource env flt namespaces includeCluster pn gv resource) = []"
  by (simp add: processResource_def Let_def filterAndOutput_no_header listNamespaces_no_header
      split: option.split)

lemma processGroupResources_no_header:
  "filter isHeaderLine (processGroupResources env flt namespaces includeCluster pn gv rs) = []"
  by (induction rs) (simp_all add: processResource_no_header)

lemma processGroup_no_header:
  "filter isHeaderLine (processGroup env flt namespaces includeCluster pn excluded grp) = []"
  by (simp add: processGroup_def processGroupResources_no_header split: option.split)

lemma processGroups_no_header:
  "filter isHeaderLine (processGroups env flt namespaces includeCluster pn excluded groups) = []"
  by (induction groups) (simp_all add: processGroup_no_header)

lemma getExcludedGroups_no_header: "filter isHeaderLine (fst (getExcludedGroups env filename)) = []"
  by (simp add: getExcludedGroups_def Let_def split: option.split prod.split)

lemma processResources_no_header:
  "filter isHeaderLine (processResources env flt namespaces includeCluster pn) = []"
proof (cases "ServerPreferredResources env")
  case None
  then show ?thesis by (simp add: processResources_def)
next
  case (Some apiResources)
  obtain warnings excl where ge: "getExcludedGroups env ''.get-resources-excluded-groups'' = (warnings, excl)"
    by (cases "getExcludedGroups env ''.get-resources-excluded-groups''")
  have "filter isHeaderLine warnings = []"
    using getExcludedGroups_no_header [of env "''.get-resources-excluded-groups''"] ge by simp
  with Some ge show ?thesis
    by (simp add: processResources_def processGroups_no_header)
qed

lemma decide_no_header: "filter isHeaderLine (decide env flt namespaces excludeCluster) = []"
  by (simp add: decide_def processAllResources_def processOnlyClusterResources_def
      processOnlyNamespaces_def processNamespacesAndCluster_def processResources_no_header
      headerPlain_def headerWithData_def)

text \<open>
  C5 (as amended). For every run that passes flag validation and kubeconfig loading,
  no header line is written when the output directory is non-empty and exactly one
  otherwise, with the data column exactly when \<open>resourceData\<close> is set; the header line,
  when present, is the first effect of the run, so it precedes every data row. A run
  that fails flag validation or kubeconfig loading writes no header line and no data row.
\<close>

theorem header_lines:
  "(validateAndBuildFilter (ParseTime env) (flagBefore flags) (flagAfter flags) (flagStart flags)
      (flagEnd flags) (flagOutput flags) (flagResourceData flags) = Inr flt \<and>
    KubeconfigLoads env \<longrightarrow>
      filter isHeaderLine (main env flags) =
        (if flagOutput flags \<noteq> [] then []
         else [Println (if flagResourceData flags then headerWithData else headerPlain)]) \<and>
      (flagOutput flags = [] \<longrightarrow>
         (\<exists>rest. main env flags =
                   Println (if flagResourceData flags then headerWithData else headerPlain) # rest \<and>
                 filter isHeaderLine rest = []))) \<and>
   (validateAndBuildFilter (ParseTime env) (flagBefore flags) (flagAfter flags) (flagStart flags)
      (flagEnd flags) (flagOutput flags) (flagResourceData flags) = Inl err \<or>
    \<not> KubeconfigLoads env \<longrightarrow>
      filter isHeaderLine (main env flags) = [] \<and> filter isDataRow (main env flags) = [])"
proof -
  have started: "filter isHeaderLine (main env flags) =
        (if flagOutput flags \<noteq> [] then []
         else [Println (if flagResourceData flags then headerWithData else headerPlain)]) \<and>
      (flagOutput flags = [] \<longrightarrow>
         (\<exists>rest. main env flags =
                   Println (if flagResourceData flags then headerWithData else headerPlain) # rest \<and>
                 filter isHeaderLine rest = []))"
    if ok: "validateAndBuildFilter (ParseTime env) (flagBefore flags) (flagAfter flags) (flagStart flags)
      (flagEnd flags) (flagOutput flags) (flagResourceData flags) = Inr flt"
      and kube: "KubeconfigLoads env"
  proof -
    have excl: "\<not> (flagResourceData flags \<and> flagOutput flags \<noteq> [])"
      using ok by (auto simp: validate_flat split: if_splits)
    have m: "main env flags =
        printHeader (flagResourceData flags) (flagOutput flags) @
        decide env flt (flagNamespace flags) (flagExcludeClusterResources flags)"
      using ok kube by (simp add: main_def)
    show ?thesis
      using excl by (auto simp: m printHeader_def decide_no_header)
  qed
  have aborted: "filter isHeaderLine (main env flags) = [] \<and> filter isDataRow (main env flags) = []"
    if "validateAndBuildFilter (ParseTime env) (flagBefore flags) (flagAfter flags) (flagStart flags)
      (flagEnd flags) (flagOutput flags) (flagResourceData flags) = Inl err \<or> \<not> KubeconfigLoads env"
    using that by (auto simp: main_def split: sum.split)
  from started aborted show ?thesis by blast
qed

text \<open>
  C5 as stated fails: a run with both before and after given and no output directory
  ends at flag validation and writes no header line.
\<close>

theorem header_lines_counterexample:
  "flagOutput (sampleFlags\<lparr>flagBefore := ''2025-01-01T00:00:00Z'', flagAfter := ''2025-01-01T00:00:00Z''\<rparr>) = [] \<and>
   main sampleEnv (sampleFlags\<lparr>flagBefore := ''2025-01-01T00:00:00Z'', flagAfter := ''2025-01-01T00:00:00Z''\<rparr>) =
     [Fatal (FlagValidationError BothBeforeAndAfter)] \<and>
   filter isHeaderLine
     (main sampleEnv (sampleFlags\<lparr>flagBefore := ''2025-01-01T00:00:00Z'', flagAfter := ''2025-01-01T00:00:00Z''\<rparr>)) = []"
  by (simp add: main_def sampleFlags_def validate_flat)

theorem header_lines_witness:
  "filter isHeaderLine (main sampleEnv sampleFlags) = [Println headerPlain] \<and>
   filter isHeaderLine (main sampleEnv (sampleFlags\<lparr>flagResourceData := True\<rparr>)) = [Println headerWithData] \<and>
   filter isHeaderLine (main sampleEnv (sampleFlags\<lparr>flagOutput := ''out''\<rparr>)) = [] \<and>
   filter isHeaderLine (main sampleEnv (sampleFlags\<lparr>flagOutput := ''out'', flagResourceData := True\<rparr>)) = []"
proof -
  have v1: "validateAndBuildFilter (ParseTime sampleEnv) (flagBefore sampleFlags) (flagAfter sampleFlags)
      (flagStart sampleFlags) (flagEnd sampleFlags) (flagOutput sampleFlags) (flagResourceData sampleFlags) =
      Inr zeroFilter"
    by (simp add: sampleFlags_def validate_flat zeroFilter_def)
  have v2: "validateAndBuildFilter (ParseTime sampleEnv) (flagBefore (sampleFlags\<lparr>flagResourceData := True\<rparr>))
      (flagAfter (sampleFlags\<lparr>flagResourceData := True\<rparr>)) (flagStart (sampleFlags\<lparr>flagResourceData := True\<rparr>))
      (flagEnd (sampleFlags\<lparr>flagResourceData := True\<rparr>)) (flagOutput (sampleFlags\<lparr>flagResourceData := True\<rparr>))
      (flagResourceData (sampleFlags\<lparr>flagResourceData := True\<rparr>)) =
      Inr (zeroFilter\<lparr>ResourceData := True\<rparr>)"
    by (simp add: sampleFlags_def validate_flat zeroFilter_def)
  have v3: "validateAndBuildFilter (ParseTime sampleEnv) (flagBefore (sampleFlags\<lparr>flagOutput := ''out''\<rparr>))
      (flagAfter (sampleFlags\<lparr>flagOutput := ''out''\<rparr>)) (flagStart (sampleFlags\<lparr>flagOutput := ''out''\<rparr>))
      (flagEnd (sampleFlags\<lparr>flagOutput := ''out''\<rparr>)) (flagOutput (sampleFlags\<lparr>flagOutput := ''out''\<rparr>))
      (flagResourceData (sampleFlags\<lparr>flagOutput := ''out''\<rparr>)) =
      Inr (zeroFilter\<lparr>OutputDir := ''out''\<rparr>)"
    by (simp add: sampleFlags_def validate_flat zeroFilter_def)
  have v4: "validateAndBuildFilter (ParseTime sampleEnv)
      (flagBefore (sampleFlags\<lparr>flagOutput := ''out'', flagResourceData := True\<rparr>))
      (flagAfter (sampleFlags\<lparr>flagOutput := ''out'', flagResourceData := True\<rparr>))
      (flagStart (sampleFlags\<lparr>flagOutput := ''out'', flagResourceData := True\<rparr>))
      (flagEnd (sampleFlags\<lparr>flagOutput := ''out'', flagResourceData := True\<rparr>))
      (flagOutput (sampleFlags\<lparr>flagOutput := ''out'', flagResourceData := True\<rparr>))
      (flagResourceData (sampleFlags\<lparr>flagOutput := ''out'', flagResourceData := True\<rparr>)) =
      Inl ResourceDataWithOutput"
    by (simp add: sampleFlags_def validate_flat zeroFilter_def)
  have k: "KubeconfigLoads sampleEnv" by (simp add: sampleEnv_def)
  show ?thesis
    using k v1 v2 v3 v4
      header_lines [of sampleEnv sampleFlags zeroFilter]
      header_lines [of sampleEnv "sampleFlags\<lparr>flagResourceData := True\<rparr>" "zeroFilter\<lparr>ResourceData := True\<rparr>"]
      header_lines [of sampleEnv "sampleFlags\<lparr>flagOutput := ''out''\<rparr>" "zeroFilter\<lparr>OutputDir := ''out''\<rparr>"]
      header_lines [of sampleEnv "sampleFlags\<lparr>flagOutput := ''out'', flagResourceData := True\<rparr>" zeroFilter
        ResourceDataWithOutput]
    by (simp add: sampleFlags_def)
qed

section \<open>An empty entry among several namespaces\<close>







section \<open>Trimming white space\<close>























section \<open>The exclusion loader\<close>





end
